theory Spec2Isabelle
  imports Main "HOL-Library.Word"
begin

section \<open>Scalar types and GL constants\<close>

text \<open>
  The OpenGL scalar types are 32-bit words, \<open>size_t\<close>, \<open>uint64_t\<close> and data pointers
  are 64-bit words. A C cast such as \<open>(GLsizei)range.width\<close> is \<open>ucast\<close>: it keeps the
  low 32 bits. The null pointer is the word 0.
\<close>

type_synonym GLenum = "32 word"
type_synonym GLuint = "32 word"
type_synonym GLint = "32 word"
type_synonym GLsizei = "32 word"
type_synonym GLuint64 = "64 word"
type_synonym size_t = "64 word"
type_synonym pointer = "64 word"

abbreviation nullptr :: pointer where
  "nullptr \<equiv> 0"

definition GL_NONE :: GLenum where "GL_NONE = 0"
definition GL_ZERO :: GLint where "GL_ZERO = 0"
definition GL_RED :: GLint where "GL_RED = 0x1903"
definition GL_NEAREST :: GLint where "GL_NEAREST = 0x2600"
definition GL_TEXTURE_MIN_FILTER :: GLenum where "GL_TEXTURE_MIN_FILTER = 0x2801"
definition GL_UNPACK_ALIGNMENT :: GLenum where "GL_UNPACK_ALIGNMENT = 0x0CF5"
definition GL_TEXTURE_SWIZZLE_R :: GLenum where "GL_TEXTURE_SWIZZLE_R = 0x8E42"
definition GL_TEXTURE_SWIZZLE_G :: GLenum where "GL_TEXTURE_SWIZZLE_G = 0x8E43"
definition GL_TEXTURE_SWIZZLE_B :: GLenum where "GL_TEXTURE_SWIZZLE_B = 0x8E44"
definition GL_TEXTURE_SWIZZLE_A :: GLenum where "GL_TEXTURE_SWIZZLE_A = 0x8E45"
definition GL_TEXTURE_2D :: GLenum where "GL_TEXTURE_2D = 0x0DE1"
definition GL_TEXTURE_CUBE_MAP :: GLenum where "GL_TEXTURE_CUBE_MAP = 0x8513"
definition GL_TEXTURE_CUBE_MAP_POSITIVE_X :: GLenum where "GL_TEXTURE_CUBE_MAP_POSITIVE_X = 0x8515"
definition GL_TEXTURE_CUBE_MAP_NEGATIVE_X :: GLenum where "GL_TEXTURE_CUBE_MAP_NEGATIVE_X = 0x8516"
definition GL_TEXTURE_CUBE_MAP_POSITIVE_Y :: GLenum where "GL_TEXTURE_CUBE_MAP_POSITIVE_Y = 0x8517"
definition GL_TEXTURE_CUBE_MAP_NEGATIVE_Y :: GLenum where "GL_TEXTURE_CUBE_MAP_NEGATIVE_Y = 0x8518"
definition GL_TEXTURE_CUBE_MAP_POSITIVE_Z :: GLenum where "GL_TEXTURE_CUBE_MAP_POSITIVE_Z = 0x8519"
definition GL_TEXTURE_CUBE_MAP_NEGATIVE_Z :: GLenum where "GL_TEXTURE_CUBE_MAP_NEGATIVE_Z = 0x851A"

text \<open>\<open>kCubeFaceTargets\<close>: the GL target of each cube face, in the order of the face enum.\<close>

definition kCubeFaceTargets :: "GLenum list" where
  "kCubeFaceTargets =
     [GL_TEXTURE_CUBE_MAP_POSITIVE_X, GL_TEXTURE_CUBE_MAP_NEGATIVE_X,
      GL_TEXTURE_CUBE_MAP_POSITIVE_Y, GL_TEXTURE_CUBE_MAP_NEGATIVE_Y,
      GL_TEXTURE_CUBE_MAP_POSITIVE_Z, GL_TEXTURE_CUBE_MAP_NEGATIVE_Z]"

section \<open>Results, descriptors and enumerations\<close>

datatype Code = Ok | ArgumentInvalid | Unsupported | InvalidOperation | Unimplemented

datatype Result = Result (code: Code) (message: string)

definition isOk :: "Result \<Rightarrow> bool" where
  "isOk r = (code r = Ok)"

text \<open>\<open>Result{}\<close>, the default-constructed result.\<close>

abbreviation ResultOk :: Result where
  "ResultOk \<equiv> Result Ok []"

text \<open>
  The texture types the file switches on; \<open>Invalid\<close> stands for every enumerator that
  only the \<open>default\<close> branches see.
\<close>

datatype TextureType = Invalid | TwoD | TwoDArray | ThreeD | Cube | ExternalImage

datatype TextureFormat = A_UNorm8 | OtherFormat nat

text \<open>
  \<open>TextureDesc::TextureUsage\<close> is a bit set; it is a set of bits here:
  \<open>(usage & B) != 0\<close> is \<open>B \<in> usage\<close> and \<open>usage | B\<close> is \<open>insert B usage\<close>.
\<close>

datatype TextureUsageBits = Sampled | Storage | Attachment

type_synonym TextureUsage = "TextureUsageBits set"

datatype TextureCubeFace = PosX | NegX | PosY | NegY | PosZ | NegZ

text \<open>\<open>static_cast<size_t>(face)\<close>\<close>

fun faceIndex :: "TextureCubeFace \<Rightarrow> nat" where
  "faceIndex PosX = 0"
| "faceIndex NegX = 1"
| "faceIndex PosY = 2"
| "faceIndex NegY = 3"
| "faceIndex PosZ = 4"
| "faceIndex NegZ = 5"

record TextureRangeDesc =
  range_x :: size_t
  range_y :: size_t
  range_z :: size_t
  range_width :: size_t
  range_height :: size_t
  range_depth :: size_t
  range_layer :: size_t
  range_numLayers :: size_t
  range_mipLevel :: size_t
  range_numMipLevels :: size_t

record TextureDesc =
  desc_width :: size_t
  desc_height :: size_t
  desc_depth :: size_t
  desc_numLayers :: size_t
  desc_numSamples :: size_t
  desc_usage :: TextureUsage
  desc_numMipLevels :: size_t
  desc_type :: TextureType
  desc_format :: TextureFormat

record FormatDescGL =
  fd_internalFormat :: GLint
  fd_format :: GLenum
  fd_type :: GLenum

section \<open>The GL context\<close>

text \<open>
  Modelled from the spec: the context object (\<open>IContext\<close>) and its device features are
  not part of the sources. The spec describes it as the owner of the binding state, of
  the state-changing primitives (bind, allocate, transfer) and of a last-error state
  polled after an operation. Every primitive the texture code calls is recorded, with
  its arguments, in a call log; \<open>bindTexture\<close> also updates the binding of its target.
  What the driver answers is part of the context: the results \<open>getLastError\<close> will
  report (an empty queue reports Ok), the handle it resolves for a texture id and the
  next texture id it allocates.
\<close>

datatype (plugins only: code) GLCall =
    BindTexture GLenum GLuint
  | PixelStorei GLenum GLint
  | TexParameteri GLenum GLenum GLint
  | GenTextures GLsizei
  | DeleteTextures "GLuint list"
  | GetTextureHandle GLuint
  | MakeTextureHandleResident GLuint64
  | MakeTextureHandleNonResident GLuint64
  | TexStorage2D GLenum GLsizei GLenum GLsizei GLsizei
  | TexStorage3D GLenum GLsizei GLenum GLsizei GLsizei GLsizei
  | TexImage1D GLenum GLint GLint GLsizei GLint GLenum GLenum pointer
  | TexSubImage1D GLenum GLint GLint GLsizei GLenum GLenum pointer
  | CompressedTexImage1D GLenum GLint GLenum GLsizei GLint GLsizei pointer
  | CompressedTexSubImage1D GLenum GLint GLint GLsizei GLenum GLsizei pointer
  | TexImage2D GLenum GLint GLint GLsizei GLsizei GLint GLenum GLenum pointer
  | TexSubImage2D GLenum GLint GLint GLint GLsizei GLsizei GLenum GLenum pointer
  | CompressedTexImage2D GLenum GLint GLenum GLsizei GLsizei GLint GLsizei pointer
  | CompressedTexSubImage2D GLenum GLint GLint GLint GLsizei GLsizei GLenum GLsizei pointer
  | TexImage3D GLenum GLint GLint GLsizei GLsizei GLsizei GLint GLenum GLenum pointer
  | TexSubImage3D GLenum GLint GLint GLint GLint GLsizei GLsizei GLsizei GLenum GLenum pointer
  | CompressedTexImage3D GLenum GLint GLenum GLsizei GLsizei GLsizei GLint GLsizei pointer
  | CompressedTexSubImage3D GLenum GLint GLint GLint GLint GLsizei GLsizei GLsizei GLenum GLsizei pointer

datatype DeviceFeatures = Texture2DArray | Texture3D

datatype InternalFeatures = TexStorage

datatype InternalRequirement = SwizzleAlphaTexturesReq

datatype TextureFeatures = TextureCompressionTexStorage | TextureCompressionTexImage

datatype TextureFormatCapabilityBits = Cap_Sampled | Cap_Storage | Cap_Attachment

record DeviceFeatureSet =
  hasFeature :: "DeviceFeatures \<Rightarrow> bool"
  hasInternalFeature :: "InternalFeatures \<Rightarrow> bool"
  hasInternalRequirement :: "InternalRequirement \<Rightarrow> bool"
  hasTextureFeature :: "TextureFeatures \<Rightarrow> bool"
  getTextureFormatCapabilities :: "TextureFormat \<Rightarrow> TextureFormatCapabilityBits set"

record Context =
  boundTexture :: "GLenum \<Rightarrow> GLuint"
  callLog :: "GLCall list"
  pendingErrors :: "Result list"
  deviceFeatures :: DeviceFeatureSet
  textureHandles :: "GLuint \<Rightarrow> GLuint64"
  nextTexture :: GLuint

definition issue :: "GLCall \<Rightarrow> Context \<Rightarrow> Context" where
  "issue g c = c\<lparr>callLog := callLog c @ [g]\<rparr>"

definition bindTexture :: "GLenum \<Rightarrow> GLuint \<Rightarrow> Context \<Rightarrow> Context" where
  "bindTexture tg tex c = issue (BindTexture tg tex) (c\<lparr>boundTexture := (boundTexture c)(tg := tex)\<rparr>)"

definition getLastError :: "Context \<Rightarrow> Result \<times> Context" where
  "getLastError c =
     (case pendingErrors c of
        [] \<Rightarrow> (ResultOk, c)
      | e # es \<Rightarrow> (e, c\<lparr>pendingErrors := es\<rparr>))"

definition getTextureHandle :: "GLuint \<Rightarrow> Context \<Rightarrow> GLuint64 \<times> Context" where
  "getTextureHandle tex c = (textureHandles c tex, issue (GetTextureHandle tex) c)"

definition genTextures :: "Context \<Rightarrow> GLuint \<times> Context" where
  "genTextures c = (nextTexture c, issue (GenTextures 1) (c\<lparr>nextTexture := nextTexture c + 1\<rparr>))"

section \<open>The texture object\<close>

text \<open>
  The fields of the texture that the file reads through its accessors (\<open>getId\<close>,
  \<open>getTarget\<close>, \<open>getUsage\<close>, \<open>getType\<close>, \<open>getNumMipLevels\<close>, \<open>getFormat\<close>) and its
  own members \<open>textureHandle_\<close>, \<open>glInternalFormat_\<close> and \<open>formatDescGL_\<close>.
\<close>

record TextureBuffer =
  getId :: GLuint
  getTarget :: GLenum
  getUsage :: TextureUsage
  getType :: TextureType
  getNumMipLevels :: "32 word"
  getFormat :: TextureFormat
  textureHandle :: GLuint64
  glInternalFormat :: GLenum
  formatDescGL :: FormatDescGL

text \<open>
  The members of the base classes that the file calls and that are defined elsewhere
  are parameters: range validation, the full-extent test, the full range of a mip
  level, the unpack alignment, the format properties, the maximal mip level setter, the
  type-to-target and format tables and the base class's \<open>create\<close>. Every theorem below
  holds for all of them.
\<close>

record BaseOps =
  validateRange :: "TextureBuffer \<Rightarrow> TextureRangeDesc \<Rightarrow> Result"
  isValidForTexImage :: "TextureBuffer \<Rightarrow> TextureRangeDesc \<Rightarrow> bool"
  getFullRange :: "TextureBuffer \<Rightarrow> size_t \<Rightarrow> size_t \<Rightarrow> TextureRangeDesc"
  getAlignment :: "TextureBuffer \<Rightarrow> size_t \<Rightarrow> size_t \<Rightarrow> GLint"
  isCompressed :: "TextureBuffer \<Rightarrow> bool"
  getBytesPerRange :: "TextureBuffer \<Rightarrow> TextureRangeDesc \<Rightarrow> size_t"
  setMaxMipLevel :: "TextureBuffer \<Rightarrow> Context \<Rightarrow> Context"
  toGLTarget :: "TextureType \<Rightarrow> size_t \<Rightarrow> GLenum"
  toFormatDescGL :: "Context \<Rightarrow> TextureFormat \<Rightarrow> TextureUsage \<Rightarrow> FormatDescGL \<Rightarrow> bool \<times> FormatDescGL"
  superCreate :: "TextureDesc \<Rightarrow> bool \<Rightarrow> TextureBuffer \<Rightarrow> Context \<Rightarrow> Result \<times> TextureBuffer \<times> Context"

section \<open>Capability predicates\<close>

definition supportsTexStorage :: "TextureBuffer \<Rightarrow> Context \<Rightarrow> bool" where
  "supportsTexStorage t c =
     (Storage \<in> getUsage t \<and>
      Cap_Storage \<in> getTextureFormatCapabilities (deviceFeatures c) (getFormat t))"

definition canInitialize :: "BaseOps \<Rightarrow> TextureBuffer \<Rightarrow> Context \<Rightarrow> bool" where
  "canInitialize b t c =
     (\<not> isCompressed b t \<or>
      (supportsTexStorage t c \<and> hasTextureFeature (deviceFeatures c) TextureCompressionTexStorage) \<or>
      hasTextureFeature (deviceFeatures c) TextureCompressionTexImage)"

section \<open>Uploads per dimension\<close>

text \<open>
  Each routine validates the range, decides between the image-replace call
  (\<open>texImage\<close>) and the sub-image-replace call, issues the plain or the compressed
  variant of it and reports the context's last error. \<open>IGL_ASSERT\<close> is a debug check
  that does not change the control flow; it has no counterpart here. The compressed
  sub-image calls are issued on \<open>getTarget()\<close>, not on the \<open>target\<close> argument, as in
  the source.
\<close>

definition upload1D ::
  "BaseOps \<Rightarrow> TextureBuffer \<Rightarrow> Context \<Rightarrow> GLenum \<Rightarrow> TextureRangeDesc \<Rightarrow> pointer \<Rightarrow> Result \<times> Context" where
  "upload1D b t c target rng data =
     (let result = validateRange b t rng in
      if \<not> isOk result then (result, c)
      else
        let texImage = (isValidForTexImage b t rng \<and> \<not> supportsTexStorage t c);
            fd = formatDescGL t
        in
          if data = nullptr \<or> \<not> isCompressed b t then
            (if texImage then
               getLastError (issue
                 (TexImage1D target (ucast (range_mipLevel rng)) (fd_internalFormat fd)
                    (ucast (range_width rng)) 0 (fd_format fd) (fd_type fd) data)
                 c)
             else
               getLastError (issue
                 (TexSubImage1D target (ucast (range_mipLevel rng)) (ucast (range_x rng))
                    (ucast (range_width rng)) (fd_format fd) (fd_type fd) data)
                 c))
          else
            (let numCompressedBytes = getBytesPerRange b t rng in
             if texImage then
               getLastError (issue
                 (CompressedTexImage1D target (ucast (range_mipLevel rng))
                    (fd_internalFormat fd) (ucast (range_width rng)) 0 (ucast numCompressedBytes)
                    data)
                 c)
             else
               getLastError (issue
                 (CompressedTexSubImage1D (getTarget t) (ucast (range_mipLevel rng))
                    (ucast (range_x rng)) (ucast (range_width rng)) (fd_internalFormat fd)
                    (ucast numCompressedBytes) data)
                 c)))"

definition upload1DArray ::
  "BaseOps \<Rightarrow> TextureBuffer \<Rightarrow> Context \<Rightarrow> GLenum \<Rightarrow> TextureRangeDesc \<Rightarrow> pointer \<Rightarrow> Result \<times> Context" where
  "upload1DArray b t c target rng data =
     (let result = validateRange b t rng in
      if \<not> isOk result then (result, c)
      else
        let texImage = (isValidForTexImage b t rng \<and> \<not> supportsTexStorage t c);
            fd = formatDescGL t
        in
          if data = nullptr \<or> \<not> isCompressed b t then
            (if texImage then
               getLastError (issue
                 (TexImage2D target (ucast (range_mipLevel rng)) (fd_internalFormat fd)
                    (ucast (range_width rng)) (ucast (range_numLayers rng)) 0 (fd_format fd)
                    (fd_type fd) data)
                 c)
             else
               getLastError (issue
                 (TexSubImage2D target (ucast (range_mipLevel rng)) (ucast (range_x rng))
                    (ucast (range_layer rng)) (ucast (range_width rng))
                    (ucast (range_numLayers rng)) (fd_format fd) (fd_type fd) data)
                 c))
          else
            (let numCompressedBytes = getBytesPerRange b t rng in
             if texImage then
               getLastError (issue
                 (CompressedTexImage2D target (ucast (range_mipLevel rng))
                    (fd_internalFormat fd) (ucast (range_width rng)) (ucast (range_numLayers rng))
                    0 (ucast numCompressedBytes) data)
                 c)
             else
               getLastError (issue
                 (CompressedTexSubImage2D (getTarget t) (ucast (range_mipLevel rng))
                    (ucast (range_x rng)) (ucast (range_layer rng)) (ucast (range_width rng))
                    (ucast (range_numLayers rng)) (fd_internalFormat fd)
                    (ucast numCompressedBytes) data)
                 c)))"

definition upload2D ::
  "BaseOps \<Rightarrow> TextureBuffer \<Rightarrow> Context \<Rightarrow> GLenum \<Rightarrow> TextureRangeDesc \<Rightarrow> pointer \<Rightarrow> Result \<times> Context" where
  "upload2D b t c target rng data =
     (let result = validateRange b t rng in
      if \<not> isOk result then (result, c)
      else
        let texImage = (isValidForTexImage b t rng \<and> \<not> supportsTexStorage t c);
            fd = formatDescGL t
        in
          if data = nullptr \<or> \<not> isCompressed b t then
            (if texImage then
               getLastError (issue
                 (TexImage2D target (ucast (range_mipLevel rng)) (fd_internalFormat fd)
                    (ucast (range_width rng)) (ucast (range_height rng)) 0 (fd_format fd)
                    (fd_type fd) data)
                 c)
             else
               getLastError (issue
                 (TexSubImage2D target (ucast (range_mipLevel rng)) (ucast (range_x rng))
                    (ucast (range_y rng)) (ucast (range_width rng)) (ucast (range_height rng))
                    (fd_format fd) (fd_type fd) data)
                 c))
          else
            (let numCompressedBytes = getBytesPerRange b t rng in
             if texImage then
               getLastError (issue
                 (CompressedTexImage2D target (ucast (range_mipLevel rng))
                    (fd_internalFormat fd) (ucast (range_width rng)) (ucast (range_height rng)) 0
                    (ucast numCompressedBytes) data)
                 c)
             else
               getLastError (issue
                 (CompressedTexSubImage2D (getTarget t) (ucast (range_mipLevel rng))
                    (ucast (range_x rng)) (ucast (range_y rng)) (ucast (range_width rng))
                    (ucast (range_height rng)) (fd_internalFormat fd) (ucast numCompressedBytes)
                    data)
                 c)))"

definition upload2DArray ::
  "BaseOps \<Rightarrow> TextureBuffer \<Rightarrow> Context \<Rightarrow> GLenum \<Rightarrow> TextureRangeDesc \<Rightarrow> pointer \<Rightarrow> Result \<times> Context" where
  "upload2DArray b t c target rng data =
     (let result = validateRange b t rng in
      if \<not> isOk result then (result, c)
      else
        let texImage = (isValidForTexImage b t rng \<and> \<not> supportsTexStorage t c);
            fd = formatDescGL t
        in
          if data = nullptr \<or> \<not> isCompressed b t then
            (if texImage then
               getLastError (issue
                 (TexImage3D target (ucast (range_mipLevel rng)) (fd_internalFormat fd)
                    (ucast (range_width rng)) (ucast (range_height rng))
                    (ucast (range_numLayers rng)) 0 (fd_format fd) (fd_type fd) data)
                 c)
             else
               getLastError (issue
                 (TexSubImage3D target (ucast (range_mipLevel rng)) (ucast (range_x rng))
                    (ucast (range_y rng)) (ucast (range_layer rng)) (ucast (range_width rng))
                    (ucast (range_height rng)) (ucast (range_numLayers rng)) (fd_format fd)
                    (fd_type fd) data)
                 c))
          else
            (let numCompressedBytes = getBytesPerRange b t rng in
             if texImage then
               getLastError (issue
                 (CompressedTexImage3D target (ucast (range_mipLevel rng))
                    (fd_internalFormat fd) (ucast (range_width rng)) (ucast (range_height rng))
                    (ucast (range_numLayers rng)) 0 (ucast numCompressedBytes) data)
                 c)
             else
               getLastError (issue
                 (CompressedTexSubImage3D (getTarget t) (ucast (range_mipLevel rng))
                    (ucast (range_x rng)) (ucast (range_y rng)) (ucast (range_layer rng))
                    (ucast (range_width rng)) (ucast (range_height rng))
                    (ucast (range_numLayers rng)) (fd_internalFormat fd)
                    (ucast numCompressedBytes) data)
                 c)))"

definition upload3D ::
  "BaseOps \<Rightarrow> TextureBuffer \<Rightarrow> Context \<Rightarrow> GLenum \<Rightarrow> TextureRangeDesc \<Rightarrow> pointer \<Rightarrow> Result \<times> Context" where
  "upload3D b t c target rng data =
     (let result = validateRange b t rng in
      if \<not> isOk result then (result, c)
      else
        let texImage = (isValidForTexImage b t rng \<and> \<not> supportsTexStorage t c);
            fd = formatDescGL t
        in
          if data = nullptr \<or> \<not> isCompressed b t then
            (if texImage then
               getLastError (issue
                 (TexImage3D target (ucast (range_mipLevel rng)) (fd_internalFormat fd)
                    (ucast (range_width rng)) (ucast (range_height rng)) (ucast (range_depth rng))
                    0 (fd_format fd) (fd_type fd) data)
                 c)
             else
               getLastError (issue
                 (TexSubImage3D target (ucast (range_mipLevel rng)) (ucast (range_x rng))
                    (ucast (range_y rng)) (ucast (range_z rng)) (ucast (range_width rng))
                    (ucast (range_height rng)) (ucast (range_depth rng)) (fd_format fd)
                    (fd_type fd) data)
                 c))
          else
            (let numCompressedBytes = getBytesPerRange b t rng in
             if texImage then
               getLastError (issue
                 (CompressedTexImage3D target (ucast (range_mipLevel rng))
                    (fd_internalFormat fd) (ucast (range_width rng)) (ucast (range_height rng))
                    (ucast (range_depth rng)) 0 (ucast numCompressedBytes) data)
                 c)
             else
               getLastError (issue
                 (CompressedTexSubImage3D (getTarget t) (ucast (range_mipLevel rng))
                    (ucast (range_x rng)) (ucast (range_y rng)) (ucast (range_z rng))
                    (ucast (range_width rng)) (ucast (range_height rng)) (ucast (range_depth rng))
                    (fd_internalFormat fd) (ucast numCompressedBytes) data)
                 c)))"

section \<open>The upload entry points\<close>

text \<open>
  The six faces of the generic cube upload: the range-for over \<open>kCubeFaceTargets\<close>,
  which returns at the first face that fails.
\<close>

fun uploadFaces :: "BaseOps \<Rightarrow> TextureBuffer \<Rightarrow> Context \<Rightarrow> GLenum list \<Rightarrow> TextureRangeDesc \<Rightarrow> pointer \<Rightarrow> Result \<times> Context" where
  "uploadFaces b t c [] rng data = (ResultOk, c)"
| "uploadFaces b t c (cubeTarget # rest) rng data =
     (case upload2D b t c cubeTarget rng data of
        (result, c') \<Rightarrow>
          if \<not> isOk result then (result, c')
          else uploadFaces b t c' rest rng data)"

text \<open>\<open>upload(GLenum target, range, data, bytesPerRow)\<close>, the overload that takes the target.\<close>

definition uploadTarget :: "BaseOps \<Rightarrow> TextureBuffer \<Rightarrow> Context \<Rightarrow> GLenum \<Rightarrow> TextureRangeDesc \<Rightarrow> pointer \<Rightarrow> size_t \<Rightarrow> Result \<times> Context" where
  "uploadTarget b t c target rng data bytesPerRow =
     (if range_numMipLevels rng > 1 then
        (Result Unimplemented ''Uploading to more than 1 mip level is not yet supported.'', c)
      else
        let c1 = issue (PixelStorei GL_UNPACK_ALIGNMENT (getAlignment b t bytesPerRow (range_mipLevel rng))) c in
        case getType t of
          TwoD \<Rightarrow> upload2D b t c1 target rng data
        | TwoDArray \<Rightarrow>
            if \<not> hasFeature (deviceFeatures c1) Texture2DArray then
              (Result Unsupported ''Unsupported texture type'', c1)
            else upload2DArray b t c1 target rng data
        | ThreeD \<Rightarrow>
            if \<not> hasFeature (deviceFeatures c1) Texture3D then
              (Result Unsupported ''Unsupported texture type'', c1)
            else upload3D b t c1 target rng data
        | Cube \<Rightarrow> uploadFaces b t c1 kCubeFaceTargets rng data
        | _ \<Rightarrow> (Result InvalidOperation ''Unknown texture type'', c1))"

text \<open>\<open>upload(range, data, bytesPerRow)\<close>, the public operation.\<close>

definition upload :: "BaseOps \<Rightarrow> TextureBuffer \<Rightarrow> Context \<Rightarrow> TextureRangeDesc \<Rightarrow> pointer \<Rightarrow> size_t \<Rightarrow> Result \<times> Context" where
  "upload b t c rng data bytesPerRow =
     (if data = nullptr then (ResultOk, c)
      else
        let target = getTarget t in
        if target = 0 then (Result InvalidOperation ''Unknown texture type'', c)
        else
          let c1 = bindTexture target (getId t) c in
          case uploadTarget b t c1 target rng data bytesPerRow of
            (result, c2) \<Rightarrow> (result, bindTexture (getTarget t) 0 c2))"

definition uploadCube :: "BaseOps \<Rightarrow> TextureBuffer \<Rightarrow> Context \<Rightarrow> TextureRangeDesc \<Rightarrow> TextureCubeFace \<Rightarrow> pointer \<Rightarrow> size_t \<Rightarrow> Result \<times> Context" where
  "uploadCube b t c rng face data bytesPerRow =
     (if data = nullptr then (ResultOk, c)
      else if range_numMipLevels rng > 1 then
        (Result Unimplemented ''Uploading to more than 1 mip level is not yet supported.'', c)
      else
        let target = getTarget t in
        if target \<noteq> GL_TEXTURE_CUBE_MAP then
          (Result InvalidOperation ''upload2D can only upload to 2D textures'', c)
        else
          let c1 = issue (PixelStorei GL_UNPACK_ALIGNMENT (getAlignment b t bytesPerRow (range_mipLevel rng))) c;
              c2 = bindTexture target (getId t) c1;
              cubeTarget = kCubeFaceTargets ! faceIndex face
          in
            case upload2D b t c2 cubeTarget rng data of
              (result, c3) \<Rightarrow> (ResultOk, bindTexture target 0 c3))"

section \<open>The persistent handle and destruction\<close>

text \<open>
  \<open>getTextureId\<close> caches the handle in \<open>textureHandle_\<close>, whose value 0 means that no
  handle has been resolved. The source asserts that the resolved handle is not 0.
\<close>

definition getTextureId :: "TextureBuffer \<Rightarrow> Context \<Rightarrow> GLuint64 \<times> TextureBuffer \<times> Context" where
  "getTextureId t c =
     (if textureHandle t = 0 then
        (case getTextureHandle (getId t) c of
           (h, c1) \<Rightarrow> (h, t\<lparr>textureHandle := h\<rparr>, issue (MakeTextureHandleResident h) c1))
      else (textureHandle t, t, c))"

text \<open>\<open>n\<close> calls of \<open>getTextureId\<close> in a row: the values returned, in order, and the final state.\<close>

fun getTextureIdTimes :: "nat \<Rightarrow> TextureBuffer \<Rightarrow> Context \<Rightarrow> GLuint64 list \<times> TextureBuffer \<times> Context" where
  "getTextureIdTimes 0 t c = ([], t, c)"
| "getTextureIdTimes (Suc n) t c =
     (case getTextureId t c of
        (h, t1, c1) \<Rightarrow>
          (case getTextureIdTimes n t1 c1 of
             (hs, t2, c2) \<Rightarrow> (h # hs, t2, c2)))"

text \<open>The destructor \<open>~TextureBuffer\<close>.\<close>

definition destroy :: "TextureBuffer \<Rightarrow> Context \<Rightarrow> Context" where
  "destroy t c =
     (let textureID = getId t in
      if textureID \<noteq> 0 then
        let c1 = (if textureHandle t \<noteq> 0
                  then issue (MakeTextureHandleNonResident (textureHandle t)) c
                  else c)
        in issue (DeleteTextures [textureID]) c1
      else c)"

section \<open>Initialisation of the mip chain\<close>

definition swapTextureChannelsForFormat :: "Context \<Rightarrow> GLenum \<Rightarrow> TextureFormat \<Rightarrow> Context" where
  "swapTextureChannelsForFormat c target iglFormat =
     (if iglFormat = A_UNorm8 \<and> hasInternalRequirement (deviceFeatures c) SwizzleAlphaTexturesReq then
        (if iglFormat = A_UNorm8 then
           issue (TexParameteri target GL_TEXTURE_SWIZZLE_A GL_RED)
            (issue (TexParameteri target GL_TEXTURE_SWIZZLE_B GL_ZERO)
              (issue (TexParameteri target GL_TEXTURE_SWIZZLE_G GL_ZERO)
                (issue (TexParameteri target GL_TEXTURE_SWIZZLE_R GL_ZERO) c)))
         else c)
      else c)"

text \<open>
  The loop of \<open>initializeWithUpload\<close>, from level \<open>i\<close> on:
  \<open>for (size_t i = 0; i < getNumMipLevels(); ++i)\<close>. The call
  \<open>upload(target, range, nullptr)\<close> takes the default \<open>bytesPerRow = 0\<close>, and
  \<open>getFullRange(i)\<close> the default \<open>numMipLevels = 1\<close>.
\<close>

function initializeWithUploadFrom :: "BaseOps \<Rightarrow> TextureBuffer \<Rightarrow> size_t \<Rightarrow> Context \<Rightarrow> Result \<times> Context" where
  "initializeWithUploadFrom b t i c =
     (if i < ucast (getNumMipLevels t) then
        (case uploadTarget b t c (getTarget t) (getFullRange b t i 1) nullptr 0 of
           (result, c') \<Rightarrow>
             if \<not> isOk result then (result, c')
             else initializeWithUploadFrom b t (i + 1) c')
      else (ResultOk, c))"
  by pat_completeness auto
termination
proof (relation "measure (\<lambda>(b, t, i, c). unat (ucast (getNumMipLevels t) :: size_t) - unat i)")
  show "wf (measure (\<lambda>(b, t, i, c). unat (ucast (getNumMipLevels t) :: size_t) - unat i))"
    by simp
next
  fix b :: BaseOps and t :: TextureBuffer and i :: size_t and c :: Context
  assume less: "i < ucast (getNumMipLevels t)"
  let ?n = "ucast (getNumMipLevels t) :: size_t"
  from less have lt: "unat i < unat ?n"
    by (simp add: word_less_nat_alt)
  have "unat ?n < 2 ^ 64"
    using unsigned_less [of ?n] by simp
  with lt have "unat i + unat (1 :: size_t) < 2 ^ LENGTH(64)"
    by simp
  then have "unat (i + 1) = unat i + unat (1 :: size_t)"
    by (simp only: unat_add_lem [THEN iffD1])
  then have "unat (i + 1) = Suc (unat i)"
    by simp
  with lt show "((b, t, i + 1, c'), (b, t, i, c)) \<in> measure (\<lambda>(b, t, i, c). unat (ucast (getNumMipLevels t) :: size_t) - unat i)" for c'
    by simp
qed

definition initializeWithUpload :: "BaseOps \<Rightarrow> TextureBuffer \<Rightarrow> Context \<Rightarrow> Result \<times> Context" where
  "initializeWithUpload b t c = initializeWithUploadFrom b t 0 c"

definition initializeWithTexStorage :: "BaseOps \<Rightarrow> TextureBuffer \<Rightarrow> Context \<Rightarrow> Result \<times> Context" where
  "initializeWithTexStorage b t c =
     (let rng = getFullRange b t 0 (ucast (getNumMipLevels t));
          target = getTarget t
      in
        case getType t of
          TwoD \<Rightarrow>
            getLastError (issue (TexStorage2D target (ucast (range_numMipLevels rng)) (glInternalFormat t)
              (ucast (range_width rng)) (ucast (range_height rng))) c)
        | TwoDArray \<Rightarrow>
            getLastError (issue (TexStorage3D target (ucast (range_numMipLevels rng)) (glInternalFormat t)
              (ucast (range_width rng)) (ucast (range_height rng)) (ucast (range_numLayers rng))) c)
        | ThreeD \<Rightarrow>
            getLastError (issue (TexStorage3D target (ucast (range_numMipLevels rng)) (glInternalFormat t)
              (ucast (range_width rng)) (ucast (range_height rng)) (ucast (range_depth rng))) c)
        | Cube \<Rightarrow>
            getLastError (issue (TexStorage2D target (ucast (range_numMipLevels rng)) (glInternalFormat t)
              (ucast (range_width rng)) (ucast (range_height rng))) c)
        | _ \<Rightarrow> (Result InvalidOperation ''Unknown texture type'', c))"

definition initialize :: "BaseOps \<Rightarrow> TextureBuffer \<Rightarrow> Context \<Rightarrow> Result \<times> Context" where
  "initialize b t c =
     (let target = getTarget t in
      if target = 0 then (Result InvalidOperation ''Unknown texture type'', c)
      else
        let c1 = bindTexture target (getId t) c;
            c2 = setMaxMipLevel b t c1;
            c3 = (if getNumMipLevels t = 1
                  then issue (TexParameteri target GL_TEXTURE_MIN_FILTER GL_NEAREST) c2
                  else c2);
            c4 = (if \<not> isCompressed b t
                  then swapTextureChannelsForFormat c3 target (getFormat t)
                  else c3)
        in
          case (if canInitialize b t c4 then
                  (if \<not> supportsTexStorage t c4 then initializeWithUpload b t c4
                   else initializeWithTexStorage b t c4)
                else (ResultOk, c4)) of
            (result, c5) \<Rightarrow> (result, bindTexture (getTarget t) 0 c5))"

section \<open>Creation\<close>

text \<open>
  \<open>setTextureBufferProperties(textureID, target)\<close> and \<open>setUsage(usage)\<close> store their
  arguments in the fields that \<open>getId\<close>, \<open>getTarget\<close> and \<open>getUsage\<close> read.
  \<open>toFormatDescGL\<close> writes its result into \<open>formatDescGL_\<close>, also when it fails.
\<close>

definition createTexture :: "BaseOps \<Rightarrow> TextureBuffer \<Rightarrow> Context \<Rightarrow> TextureDesc \<Rightarrow> Result \<times> TextureBuffer \<times> Context" where
  "createTexture b t c desc =
     (let target = toGLTarget b (desc_type desc) (desc_numSamples desc) in
      if target = 0 then (Result Unsupported ''Unsupported texture target'', t, c)
      else
        let usageForFormat = (if Storage \<notin> desc_usage desc
                              then insert Sampled (desc_usage desc)
                              else desc_usage desc)
        in
          case toFormatDescGL b c (desc_format desc) usageForFormat (formatDescGL t) of
            (found, fd) \<Rightarrow>
              let t1 = t\<lparr>formatDescGL := fd\<rparr> in
              if \<not> found then (Result ArgumentInvalid ''Invalid texture format'', t1, c)
              else if \<not> isCompressed b t1 \<and> fd_type fd = GL_NONE then
                (Result ArgumentInvalid ''Invalid texture type'', t1, c)
              else if Storage \<in> desc_usage desc \<and> \<not> hasInternalFeature (deviceFeatures c) TexStorage then
                (Result Unsupported ''Texture Storage not supported'', t1, c)
              else
                let t2 = t1\<lparr>glInternalFormat := fd_internalFormat fd\<rparr> in
                case genTextures c of
                  (textureID, c1) \<Rightarrow>
                    let t3 = t2\<lparr>getId := textureID, getTarget := target\<rparr>;
                        t4 = t3\<lparr>getUsage := desc_usage desc\<rparr>
                    in
                      if desc_type desc = ExternalImage then (ResultOk, t4, c1)
                      else
                        (case initialize b t4 c1 of
                           (result, c2) \<Rightarrow> (result, t4, c2)))"

definition create :: "BaseOps \<Rightarrow> TextureBuffer \<Rightarrow> Context \<Rightarrow> TextureDesc \<Rightarrow> bool \<Rightarrow> Result \<times> TextureBuffer \<times> Context" where
  "create b t c desc hasStorageAlready =
     (case superCreate b desc hasStorageAlready t c of
        (result, t1, c1) \<Rightarrow>
          if isOk result then
            (let isSampledOrStorage = (Sampled \<in> desc_usage desc \<or> Storage \<in> desc_usage desc) in
             if isSampledOrStorage \<or> desc_type desc \<noteq> TwoD \<or> desc_numMipLevels desc > 1 then
               createTexture b t1 c1 desc
             else (Result Unsupported ''invalid usage!'', t1, c1))
          else (result, t1, c1))"

section \<open>A concrete texture, context and base class\<close>

text \<open>
  The concrete inputs on which the theorems below are evaluated: a 4 x 4 texture with
  two mip levels (4 x 4 and 2 x 2), a driver that reports no error and a device whose
  formats have no storage capability, so that allocation is by image replacement.
\<close>

definition exampleFullRange :: "size_t \<Rightarrow> size_t \<Rightarrow> TextureRangeDesc" where
  "exampleFullRange mipLevel numMipLevels =
     \<lparr>range_x = 0, range_y = 0, range_z = 0,
      range_width = (if mipLevel = 0 then 4 else 2),
      range_height = (if mipLevel = 0 then 4 else 2),
      range_depth = 1, range_layer = 0, range_numLayers = 1,
      range_mipLevel = mipLevel, range_numMipLevels = numMipLevels\<rparr>"

definition exampleFormatDesc :: FormatDescGL where
  "exampleFormatDesc = \<lparr>fd_internalFormat = 0x8058, fd_format = 0x1908, fd_type = 0x1401\<rparr>"

definition exampleOps :: BaseOps where
  "exampleOps =
     \<lparr>validateRange = (\<lambda>t r.
        if range_x r + range_width r \<le> 4 \<and> range_y r + range_height r \<le> 4 then ResultOk
        else Result ArgumentInvalid ''range out of bounds''),
      isValidForTexImage = (\<lambda>t r.
        range_width r = (if range_mipLevel r = 0 then 4 else 2) \<and>
        range_height r = (if range_mipLevel r = 0 then 4 else 2)),
      getFullRange = (\<lambda>t. exampleFullRange),
      getAlignment = (\<lambda>t bytesPerRow mipLevel. 4),
      isCompressed = (\<lambda>t. False),
      getBytesPerRange = (\<lambda>t r. 0),
      setMaxMipLevel = (\<lambda>t c. c),
      toGLTarget = (\<lambda>ty numSamples.
        case ty of TwoD \<Rightarrow> GL_TEXTURE_2D | Cube \<Rightarrow> GL_TEXTURE_CUBE_MAP | _ \<Rightarrow> 0),
      toFormatDescGL = (\<lambda>c f u fd. (True, exampleFormatDesc)),
      superCreate = (\<lambda>desc hasStorageAlready t c.
        (ResultOk,
         t\<lparr>getType := desc_type desc,
           getNumMipLevels := ucast (desc_numMipLevels desc),
           getFormat := desc_format desc\<rparr>,
         c))\<rparr>"

definition exampleFeatures :: DeviceFeatureSet where
  "exampleFeatures =
     \<lparr>hasFeature = (\<lambda>f. True),
      hasInternalFeature = (\<lambda>f. True),
      hasInternalRequirement = (\<lambda>r. False),
      hasTextureFeature = (\<lambda>f. False),
      getTextureFormatCapabilities = (\<lambda>f. {Cap_Sampled})\<rparr>"

definition exampleContext :: Context where
  "exampleContext =
     \<lparr>boundTexture = (\<lambda>target. 0),
      callLog = [],
      pendingErrors = [],
      deviceFeatures = exampleFeatures,
      textureHandles = (\<lambda>tex. 0xABC),
      nextTexture = 1\<rparr>"

definition exampleTexture :: TextureBuffer where
  "exampleTexture =
     \<lparr>getId = 7, getTarget = GL_TEXTURE_2D, getUsage = {Sampled}, getType = TwoD,
      getNumMipLevels = 2, getFormat = OtherFormat 0, textureHandle = 0,
      glInternalFormat = 0x8058, formatDescGL = exampleFormatDesc\<rparr>"

definition exampleCube :: TextureBuffer where
  "exampleCube = exampleTexture\<lparr>getTarget := GL_TEXTURE_CUBE_MAP, getType := Cube\<rparr>"

definition examplePartialRange :: TextureRangeDesc where
  "examplePartialRange = (exampleFullRange 0 1)\<lparr>range_x := 1, range_y := 1, range_width := 2, range_height := 2\<rparr>"

definition examplePixels :: pointer where
  "examplePixels = 0x1000"

definition exampleDesc :: TextureDesc where
  "exampleDesc =
     \<lparr>desc_width = 4, desc_height = 4, desc_depth = 1, desc_numLayers = 1, desc_numSamples = 1,
      desc_usage = {Attachment}, desc_numMipLevels = 1, desc_type = TwoD,
      desc_format = OtherFormat 0\<rparr>"

text \<open>A driver whose next last-error poll reports a failure.\<close>

definition failingContext :: Context where
  "failingContext = exampleContext\<lparr>pendingErrors := [Result InvalidOperation ''GL_INVALID_OPERATION'']\<rparr>"

text \<open>A device whose formats can be allocated as immutable storage, and a storage texture on it.\<close>

definition storageContext :: Context where
  "storageContext =
     exampleContext\<lparr>deviceFeatures :=
       exampleFeatures\<lparr>getTextureFormatCapabilities := (\<lambda>f. {Cap_Sampled, Cap_Storage})\<rparr>\<rparr>"

definition storageTexture :: TextureBuffer where
  "storageTexture = exampleTexture\<lparr>getUsage := {Sampled, Storage}\<rparr>"




section \<open>Observing a run\<close>

text \<open>The calls a run has added to the log of the context it started from.\<close>

definition issued :: "Context \<Rightarrow> Context \<Rightarrow> GLCall list" where
  "issued c c' = drop (length (callLog c)) (callLog c')"

text \<open>
  The transfer path of a call: image-replace for the \<open>TexImage\<close> calls and their
  compressed variants, sub-image-replace for the \<open>TexSubImage\<close> calls and theirs,
  none for every other call.
\<close>

datatype TransferPath = ImageReplace | SubImageReplace

fun pathOf :: "GLCall \<Rightarrow> TransferPath option" where
  "pathOf (TexImage1D _ _ _ _ _ _ _ _) = Some ImageReplace"
| "pathOf (TexImage2D _ _ _ _ _ _ _ _ _) = Some ImageReplace"
| "pathOf (TexImage3D _ _ _ _ _ _ _ _ _ _) = Some ImageReplace"
| "pathOf (CompressedTexImage1D _ _ _ _ _ _ _) = Some ImageReplace"
| "pathOf (CompressedTexImage2D _ _ _ _ _ _ _ _) = Some ImageReplace"
| "pathOf (CompressedTexImage3D _ _ _ _ _ _ _ _ _) = Some ImageReplace"
| "pathOf (TexSubImage1D _ _ _ _ _ _ _) = Some SubImageReplace"
| "pathOf (TexSubImage2D _ _ _ _ _ _ _ _ _) = Some SubImageReplace"
| "pathOf (TexSubImage3D _ _ _ _ _ _ _ _ _ _ _) = Some SubImageReplace"
| "pathOf (CompressedTexSubImage1D _ _ _ _ _ _ _) = Some SubImageReplace"
| "pathOf (CompressedTexSubImage2D _ _ _ _ _ _ _ _ _) = Some SubImageReplace"
| "pathOf (CompressedTexSubImage3D _ _ _ _ _ _ _ _ _ _ _) = Some SubImageReplace"
| "pathOf _ = None"



text \<open>
  The dimensions that have an upload routine the device can run: 2D and cube textures
  on every device, 2D-array and 3D textures on a device with the feature of that name.
\<close>

definition supportsDimension :: "TextureBuffer \<Rightarrow> Context \<Rightarrow> bool" where
  "supportsDimension t c =
     (case getType t of
        TwoD \<Rightarrow> True
      | TwoDArray \<Rightarrow> hasFeature (deviceFeatures c) Texture2DArray
      | ThreeD \<Rightarrow> hasFeature (deviceFeatures c) Texture3D
      | Cube \<Rightarrow> True
      | _ \<Rightarrow> False)"



section \<open>Multi-level ranges\<close>

text \<open>
  Claim C2, as the specification states it: for every range with
  \<open>numMipLevels > 1\<close> and all values of the other parameters, a null data pointer
  included, the public upload returns Unimplemented. The public \<open>upload\<close> tests
  \<open>data == nullptr\<close> before it looks at the range and returns Ok there, so the claim
  fails on a two-level range with a null data pointer.
\<close>

theorem upload_multi_mip_null_data_counterexample:
  "range_numMipLevels (exampleFullRange 0 2) > 1 \<and>
   code (fst (upload exampleOps exampleTexture exampleContext (exampleFullRange 0 2) nullptr 0)) = Ok"
  by (simp add: upload_def exampleFullRange_def)

text \<open>
  Claim C2, amended: for every range with \<open>numMipLevels > 1\<close>, the overload of upload
  that takes the target returns Unimplemented for all values of the other parameters,
  a null data pointer included; the public upload returns Unimplemented when the data
  pointer is not null and the texture has a target, Ok when the data pointer is null,
  and InvalidOperation when the data pointer is not null and the target is 0.
\<close>

theorem upload_multi_mip_unimplemented:
  "range_numMipLevels rng > 1 \<Longrightarrow>
     code (fst (uploadTarget b t c target rng data bytesPerRow)) = Unimplemented \<and>
     code (fst (upload b t c rng data bytesPerRow)) =
       (if data = nullptr then Ok
        else if getTarget t = 0 then InvalidOperation
        else Unimplemented)"
proof -
  assume multi: "range_numMipLevels rng > 1"
  have inner: "uploadTarget b t c' tg rng data bytesPerRow =
      (Result Unimplemented ''Uploading to more than 1 mip level is not yet supported.'', c')" for c' tg
    using multi by (simp add: uploadTarget_def)
  have "code (fst (uploadTarget b t c target rng data bytesPerRow)) = Unimplemented"
    by (simp add: inner)
  moreover have "code (fst (upload b t c rng data bytesPerRow)) =
       (if data = nullptr then Ok
        else if getTarget t = 0 then InvalidOperation
        else Unimplemented)"
    by (simp add: upload_def inner Let_def)
  ultimately show ?thesis by simp
qed

theorem upload_multi_mip_unimplemented_witness:
  "range_numMipLevels (exampleFullRange 0 2) > 1 \<and>
   code (fst (uploadTarget exampleOps exampleTexture exampleContext GL_TEXTURE_2D (exampleFullRange 0 2) nullptr 0)) = Unimplemented \<and>
   code (fst (upload exampleOps exampleTexture exampleContext (exampleFullRange 0 2) examplePixels 0)) = Unimplemented"
proof -
  have multi: "range_numMipLevels (exampleFullRange 0 2) > 1"
    by (simp add: exampleFullRange_def)
  have pixels: "examplePixels \<noteq> nullptr" "getTarget exampleTexture \<noteq> 0"
    by (simp_all add: examplePixels_def exampleTexture_def GL_TEXTURE_2D_def)
  show ?thesis
    using multi pixels
      upload_multi_mip_unimplemented [OF multi, of exampleOps exampleTexture exampleContext GL_TEXTURE_2D nullptr 0]
      upload_multi_mip_unimplemented [OF multi, of exampleOps exampleTexture exampleContext GL_TEXTURE_2D examplePixels 0]
    by simp
qed

section \<open>Face uploads\<close>

text \<open>
  Claim C4: on a texture that is not a cube map, \<open>uploadCube\<close> with data and a
  single-level range returns InvalidOperation and issues no call at all: the context,
  its bindings included, is the one it was given. \<open>uploadCube\<close> reads the
  dimensionality off the GL target of the texture, which is \<open>GL_TEXTURE_CUBE_MAP\<close>
  for cube textures only.
\<close>

theorem uploadCube_not_cube:
  "getTarget t \<noteq> GL_TEXTURE_CUBE_MAP \<Longrightarrow> data \<noteq> nullptr \<Longrightarrow> range_numMipLevels rng = 1 \<Longrightarrow>
     code (fst (uploadCube b t c rng face data bytesPerRow)) = InvalidOperation \<and>
     snd (uploadCube b t c rng face data bytesPerRow) = c"
  by (simp add: uploadCube_def)

theorem uploadCube_not_cube_witness:
  "getTarget exampleTexture \<noteq> GL_TEXTURE_CUBE_MAP \<and> examplePixels \<noteq> nullptr \<and>
   range_numMipLevels (exampleFullRange 0 1) = 1 \<and>
   code (fst (uploadCube exampleOps exampleTexture exampleContext (exampleFullRange 0 1) PosX examplePixels 0)) = InvalidOperation \<and>
   snd (uploadCube exampleOps exampleTexture exampleContext (exampleFullRange 0 1) PosX examplePixels 0) = exampleContext"
proof -
  have h1: "getTarget exampleTexture \<noteq> GL_TEXTURE_CUBE_MAP"
    by (simp add: exampleTexture_def GL_TEXTURE_2D_def GL_TEXTURE_CUBE_MAP_def)
  have h2: "examplePixels \<noteq> nullptr"
    by (simp add: examplePixels_def)
  have h3: "range_numMipLevels (exampleFullRange 0 1) = 1"
    by (simp add: exampleFullRange_def)
  from uploadCube_not_cube [OF h1 h2 h3, of exampleOps exampleContext PosX 0] h1 h2 h3
  show ?thesis by simp
qed

text \<open>
  Claim C9: on a cube texture, \<open>uploadCube\<close> with data and a single-level range
  returns Ok whatever the upload of the face returns: the face is uploaded between the
  bind and the unbind, and only the context of that upload is kept, not its result.
  The instance below runs it on a driver that reports an error for the face.
\<close>

theorem uploadCube_discards_inner_result:
  "getTarget t = GL_TEXTURE_CUBE_MAP \<Longrightarrow> data \<noteq> nullptr \<Longrightarrow> range_numMipLevels rng = 1 \<Longrightarrow>
     uploadCube b t c rng face data bytesPerRow =
       (ResultOk,
        bindTexture GL_TEXTURE_CUBE_MAP 0
          (snd (upload2D b t
             (bindTexture GL_TEXTURE_CUBE_MAP (getId t)
                (issue (PixelStorei GL_UNPACK_ALIGNMENT (getAlignment b t bytesPerRow (range_mipLevel rng))) c))
             (kCubeFaceTargets ! faceIndex face) rng data)))"
  by (simp add: uploadCube_def Let_def split: prod.splits)

theorem uploadCube_discards_inner_result_witness:
  "getTarget exampleCube = GL_TEXTURE_CUBE_MAP \<and> examplePixels \<noteq> nullptr \<and>
   range_numMipLevels (exampleFullRange 0 1) = 1 \<and>
   fst (upload2D exampleOps exampleCube
          (bindTexture GL_TEXTURE_CUBE_MAP (getId exampleCube)
             (issue (PixelStorei GL_UNPACK_ALIGNMENT 4) failingContext))
          GL_TEXTURE_CUBE_MAP_POSITIVE_X (exampleFullRange 0 1) examplePixels)
     = Result InvalidOperation ''GL_INVALID_OPERATION'' \<and>
   fst (uploadCube exampleOps exampleCube failingContext (exampleFullRange 0 1) PosX examplePixels 0) = ResultOk"
proof -
  have h1: "getTarget exampleCube = GL_TEXTURE_CUBE_MAP"
    by (simp add: exampleCube_def)
  have h2: "examplePixels \<noteq> nullptr"
    by (simp add: examplePixels_def)
  have h3: "range_numMipLevels (exampleFullRange 0 1) = 1"
    by (simp add: exampleFullRange_def)
  have inner: "fst (upload2D exampleOps exampleCube
          (bindTexture GL_TEXTURE_CUBE_MAP (getId exampleCube)
             (issue (PixelStorei GL_UNPACK_ALIGNMENT 4) failingContext))
          GL_TEXTURE_CUBE_MAP_POSITIVE_X (exampleFullRange 0 1) examplePixels)
     = Result InvalidOperation ''GL_INVALID_OPERATION''"
    by (simp add: upload2D_def exampleOps_def exampleCube_def exampleTexture_def exampleFullRange_def
        exampleContext_def exampleFeatures_def failingContext_def isOk_def bindTexture_def issue_def
        getLastError_def supportsTexStorage_def Let_def)
  from uploadCube_discards_inner_result [OF h1 h2 h3, of exampleOps failingContext PosX 0] h1 h2 h3 inner
  show ?thesis by simp
qed

section \<open>The persistent handle\<close>

lemma getTextureIdTimes_cached:
  "textureHandle t \<noteq> 0 \<Longrightarrow> getTextureIdTimes n t c = (replicate n (textureHandle t), t, c)"
  by (induction n) (simp_all add: getTextureId_def)

text \<open>
  Claim C5: on a texture whose handle is not resolved yet, any number \<open>n + 1\<close> of calls
  of \<open>getTextureId\<close> returns \<open>n + 1\<close> times the handle the context resolves for the
  texture id, and the calls issued are one resolution and one residency call, those of
  the first call. The handle the context resolves is not 0, as the source asserts
  (\<open>IGL_ASSERT(textureHandle_)\<close>); 0 is the value of the cache that means unresolved.
\<close>

theorem getTextureId_resolves_once:
  assumes "textureHandle t = 0" and "textureHandles c (getId t) \<noteq> 0"
  shows "getTextureIdTimes (Suc n) t c =
     (replicate (Suc n) (textureHandles c (getId t)),
      t\<lparr>textureHandle := textureHandles c (getId t)\<rparr>,
      c\<lparr>callLog := callLog c @ [GetTextureHandle (getId t), MakeTextureHandleResident (textureHandles c (getId t))]\<rparr>)"
proof -
  let ?h = "textureHandles c (getId t)"
  let ?t = "t\<lparr>textureHandle := ?h\<rparr>"
  let ?c = "c\<lparr>callLog := callLog c @ [GetTextureHandle (getId t), MakeTextureHandleResident ?h]\<rparr>"
  have first: "getTextureId t c = (?h, ?t, ?c)"
    using assms(1) by (simp add: getTextureId_def getTextureHandle_def issue_def)
  have "textureHandle ?t \<noteq> 0"
    using assms(2) by simp
  then have rest: "getTextureIdTimes n ?t ?c = (replicate n ?h, ?t, ?c)"
    using getTextureIdTimes_cached [of ?t n ?c] by simp
  show ?thesis
    by (simp add: first rest)
qed

theorem getTextureId_resolves_once_witness:
  "textureHandle exampleTexture = 0 \<and> textureHandles exampleContext (getId exampleTexture) \<noteq> 0 \<and>
   fst (getTextureIdTimes 3 exampleTexture exampleContext) = [0xABC, 0xABC, 0xABC] \<and>
   callLog (snd (snd (getTextureIdTimes 3 exampleTexture exampleContext))) =
     [GetTextureHandle 7, MakeTextureHandleResident 0xABC]"
proof -
  have h1: "textureHandle exampleTexture = 0"
    by (simp add: exampleTexture_def)
  have h2: "textureHandles exampleContext (getId exampleTexture) \<noteq> 0"
    by (simp add: exampleContext_def)
  have three: "(3::nat) = Suc 2"
    by simp
  from getTextureId_resolves_once [OF h1 h2, of 2] h1 h2
  show ?thesis
    unfolding three
    by (simp add: exampleTexture_def exampleContext_def numeral_2_eq_2)
qed

section \<open>Destruction\<close>

text \<open>
  Claim C6: the destructor of a texture with a backend object and a resolved handle
  makes the handle non-resident and then deletes the object; with a backend object and
  no handle it only deletes the object; without a backend object (id 0) it issues no
  call and leaves the context as it was.
\<close>

theorem destroy_order:
  "(getId t \<noteq> 0 \<and> textureHandle t \<noteq> 0 \<longrightarrow>
      destroy t c = c\<lparr>callLog := callLog c @ [MakeTextureHandleNonResident (textureHandle t), DeleteTextures [getId t]]\<rparr>) \<and>
   (getId t \<noteq> 0 \<and> textureHandle t = 0 \<longrightarrow>
      destroy t c = c\<lparr>callLog := callLog c @ [DeleteTextures [getId t]]\<rparr>) \<and>
   (getId t = 0 \<longrightarrow> destroy t c = c)"
  by (simp add: destroy_def issue_def Let_def)

theorem destroy_order_witness:
  "callLog (destroy (exampleTexture\<lparr>textureHandle := 0xABC\<rparr>) exampleContext) =
     [MakeTextureHandleNonResident 0xABC, DeleteTextures [7]] \<and>
   callLog (destroy exampleTexture exampleContext) = [DeleteTextures [7]] \<and>
   destroy (exampleTexture\<lparr>getId := 0\<rparr>) exampleContext = exampleContext"
  using destroy_order [of "exampleTexture\<lparr>textureHandle := 0xABC\<rparr>" exampleContext]
    destroy_order [of exampleTexture exampleContext]
    destroy_order [of "exampleTexture\<lparr>getId := 0\<rparr>" exampleContext]
  by (simp add: exampleTexture_def exampleContext_def)

section \<open>The transfer path\<close>

lemma issued_getLastError_issue:
  "issued c (snd (getLastError (issue g c))) = [g]"
  by (simp add: issued_def getLastError_def issue_def split: list.splits)

lemma example_ranges_valid:
  "isOk (validateRange exampleOps t (exampleFullRange 0 1))"
  "isOk (validateRange exampleOps t examplePartialRange)"
  by (simp_all add: exampleOps_def exampleFullRange_def examplePartialRange_def isOk_def)

lemma upload1D_path:
  "isOk (validateRange b t rng) \<Longrightarrow>
     map pathOf (issued c (snd (upload1D b t c target rng data))) =
       [Some (if isValidForTexImage b t rng \<and> \<not> supportsTexStorage t c
              then ImageReplace else SubImageReplace)]"
  by (simp add: upload1D_def Let_def issued_getLastError_issue)

lemma upload1DArray_path:
  "isOk (validateRange b t rng) \<Longrightarrow>
     map pathOf (issued c (snd (upload1DArray b t c target rng data))) =
       [Some (if isValidForTexImage b t rng \<and> \<not> supportsTexStorage t c
              then ImageReplace else SubImageReplace)]"
  by (simp add: upload1DArray_def Let_def issued_getLastError_issue)

lemma upload2D_path:
  "isOk (validateRange b t rng) \<Longrightarrow>
     map pathOf (issued c (snd (upload2D b t c target rng data))) =
       [Some (if isValidForTexImage b t rng \<and> \<not> supportsTexStorage t c
              then ImageReplace else SubImageReplace)]"
  by (simp add: upload2D_def Let_def issued_getLastError_issue)

lemma upload2DArray_path:
  "isOk (validateRange b t rng) \<Longrightarrow>
     map pathOf (issued c (snd (upload2DArray b t c target rng data))) =
       [Some (if isValidForTexImage b t rng \<and> \<not> supportsTexStorage t c
              then ImageReplace else SubImageReplace)]"
  by (simp add: upload2DArray_def Let_def issued_getLastError_issue)

lemma upload3D_path:
  "isOk (validateRange b t rng) \<Longrightarrow>
     map pathOf (issued c (snd (upload3D b t c target rng data))) =
       [Some (if isValidForTexImage b t rng \<and> \<not> supportsTexStorage t c
              then ImageReplace else SubImageReplace)]"
  by (simp add: upload3D_def Let_def issued_getLastError_issue)

text \<open>
  Claim C1: each of the five upload routines, on a range that passes validation,
  issues exactly one call, and that call is on the image-replace path if and only if
  the range is valid for \<open>texImage\<close> (it covers the full extent of its mip level) and
  the texture does not support immutable storage (it was allocated by image
  replacement); otherwise, for a partial range or a texture with immutable storage, it
  is on the sub-image-replace path. The same holds for the compressed variants.
\<close>

theorem upload_path_selection:
  assumes valid: "isOk (validateRange b t rng)"
  shows "\<forall>upload_routine \<in> {upload1D, upload1DArray, upload2D, upload2DArray, upload3D}.
     map pathOf (issued c (snd (upload_routine b t c target rng data))) =
       [Some (if isValidForTexImage b t rng \<and> \<not> supportsTexStorage t c
              then ImageReplace else SubImageReplace)]"
  using upload1D_path [OF valid] upload1DArray_path [OF valid] upload2D_path [OF valid]
    upload2DArray_path [OF valid] upload3D_path [OF valid]
  by simp

theorem upload_path_selection_witness:
  "isOk (validateRange exampleOps exampleTexture (exampleFullRange 0 1)) \<and>
   isOk (validateRange exampleOps exampleTexture examplePartialRange) \<and>
   map pathOf (issued exampleContext (snd (upload2D exampleOps exampleTexture exampleContext
      GL_TEXTURE_2D (exampleFullRange 0 1) examplePixels))) = [Some ImageReplace] \<and>
   map pathOf (issued exampleContext (snd (upload2D exampleOps exampleTexture exampleContext
      GL_TEXTURE_2D examplePartialRange examplePixels))) = [Some SubImageReplace] \<and>
   map pathOf (issued storageContext (snd (upload2D exampleOps storageTexture storageContext
      GL_TEXTURE_2D (exampleFullRange 0 1) examplePixels))) = [Some SubImageReplace]"
proof -
  have member: "upload2D \<in> {upload1D, upload1DArray, upload2D, upload2DArray, upload3D}"
    by simp
  have full: "isValidForTexImage exampleOps t (exampleFullRange 0 1)" for t
    by (simp add: exampleOps_def exampleFullRange_def)
  have partial: "\<not> isValidForTexImage exampleOps t examplePartialRange" for t
    by (simp add: exampleOps_def exampleFullRange_def examplePartialRange_def)
  have mutable: "\<not> supportsTexStorage exampleTexture exampleContext"
    by (simp add: supportsTexStorage_def exampleTexture_def)
  have immutable: "supportsTexStorage storageTexture storageContext"
    by (simp add: supportsTexStorage_def storageTexture_def storageContext_def exampleTexture_def
        exampleContext_def exampleFeatures_def)
  have one: "map pathOf (issued exampleContext (snd (upload2D exampleOps exampleTexture exampleContext
      GL_TEXTURE_2D (exampleFullRange 0 1) examplePixels))) = [Some ImageReplace]"
    using upload_path_selection [where b = exampleOps and t = exampleTexture and c = exampleContext
        and target = GL_TEXTURE_2D and data = examplePixels, OF example_ranges_valid(1), THEN bspec, OF member]
      full mutable
    by simp
  have two: "map pathOf (issued exampleContext (snd (upload2D exampleOps exampleTexture exampleContext
      GL_TEXTURE_2D examplePartialRange examplePixels))) = [Some SubImageReplace]"
    using upload_path_selection [where b = exampleOps and t = exampleTexture and c = exampleContext
        and target = GL_TEXTURE_2D and data = examplePixels, OF example_ranges_valid(2), THEN bspec, OF member]
      partial
    by simp
  have three: "map pathOf (issued storageContext (snd (upload2D exampleOps storageTexture storageContext
      GL_TEXTURE_2D (exampleFullRange 0 1) examplePixels))) = [Some SubImageReplace]"
    using upload_path_selection [where b = exampleOps and t = storageTexture and c = storageContext
        and target = GL_TEXTURE_2D and data = examplePixels, OF example_ranges_valid(1), THEN bspec, OF member]
      immutable
    by simp
  from one two three example_ranges_valid [of exampleTexture]
  show ?thesis by simp
qed

section \<open>Uploads without data\<close>

text \<open>
  Claim C3, as the specification states it: on a valid single-level range, the public
  upload with a null data pointer issues the chosen image-replace or sub-image-replace
  call without a transfer, and returns Ok. The public \<open>upload\<close> returns Ok at its
  first statement when the data pointer is null: on the full range of the example
  texture it issues no call.
\<close>

theorem upload_null_data_counterexample:
  "isOk (validateRange exampleOps exampleTexture (exampleFullRange 0 1)) \<and>
   range_numMipLevels (exampleFullRange 0 1) = 1 \<and>
   issued exampleContext
     (snd (upload exampleOps exampleTexture exampleContext (exampleFullRange 0 1) nullptr 0)) = []"
  by (simp add: upload_def issued_def exampleOps_def exampleFullRange_def isOk_def)

lemma upload1D_null_data:
  "isOk (validateRange b t rng) \<Longrightarrow>
     upload1D b t c target rng nullptr =
       getLastError (issue
         (if isValidForTexImage b t rng \<and> \<not> supportsTexStorage t c
          then TexImage1D target (ucast (range_mipLevel rng))
                 (fd_internalFormat (formatDescGL t)) (ucast (range_width rng)) 0
                 (fd_format (formatDescGL t)) (fd_type (formatDescGL t)) nullptr
          else TexSubImage1D target (ucast (range_mipLevel rng)) (ucast (range_x rng))
                 (ucast (range_width rng)) (fd_format (formatDescGL t))
                 (fd_type (formatDescGL t)) nullptr) c)"
  by (simp add: upload1D_def Let_def)

lemma upload1DArray_null_data:
  "isOk (validateRange b t rng) \<Longrightarrow>
     upload1DArray b t c target rng nullptr =
       getLastError (issue
         (if isValidForTexImage b t rng \<and> \<not> supportsTexStorage t c
          then TexImage2D target (ucast (range_mipLevel rng))
                 (fd_internalFormat (formatDescGL t)) (ucast (range_width rng))
                 (ucast (range_numLayers rng)) 0 (fd_format (formatDescGL t))
                 (fd_type (formatDescGL t)) nullptr
          else TexSubImage2D target (ucast (range_mipLevel rng)) (ucast (range_x rng))
                 (ucast (range_layer rng)) (ucast (range_width rng))
                 (ucast (range_numLayers rng)) (fd_format (formatDescGL t))
                 (fd_type (formatDescGL t)) nullptr) c)"
  by (simp add: upload1DArray_def Let_def)

lemma upload2D_null_data:
  "isOk (validateRange b t rng) \<Longrightarrow>
     upload2D b t c target rng nullptr =
       getLastError (issue
         (if isValidForTexImage b t rng \<and> \<not> supportsTexStorage t c
          then TexImage2D target (ucast (range_mipLevel rng))
                 (fd_internalFormat (formatDescGL t)) (ucast (range_width rng))
                 (ucast (range_height rng)) 0 (fd_format (formatDescGL t))
                 (fd_type (formatDescGL t)) nullptr
          else TexSubImage2D target (ucast (range_mipLevel rng)) (ucast (range_x rng))
                 (ucast (range_y rng)) (ucast (range_width rng)) (ucast (range_height rng))
                 (fd_format (formatDescGL t)) (fd_type (formatDescGL t)) nullptr) c)"
  by (simp add: upload2D_def Let_def)

lemma upload2DArray_null_data:
  "isOk (validateRange b t rng) \<Longrightarrow>
     upload2DArray b t c target rng nullptr =
       getLastError (issue
         (if isValidForTexImage b t rng \<and> \<not> supportsTexStorage t c
          then TexImage3D target (ucast (range_mipLevel rng))
                 (fd_internalFormat (formatDescGL t)) (ucast (range_width rng))
                 (ucast (range_height rng)) (ucast (range_numLayers rng)) 0
                 (fd_format (formatDescGL t)) (fd_type (formatDescGL t)) nullptr
          else TexSubImage3D target (ucast (range_mipLevel rng)) (ucast (range_x rng))
                 (ucast (range_y rng)) (ucast (range_layer rng)) (ucast (range_width rng))
                 (ucast (range_height rng)) (ucast (range_numLayers rng))
                 (fd_format (formatDescGL t)) (fd_type (formatDescGL t)) nullptr) c)"
  by (simp add: upload2DArray_def Let_def)

lemma upload3D_null_data:
  "isOk (validateRange b t rng) \<Longrightarrow>
     upload3D b t c target rng nullptr =
       getLastError (issue
         (if isValidForTexImage b t rng \<and> \<not> supportsTexStorage t c
          then TexImage3D target (ucast (range_mipLevel rng))
                 (fd_internalFormat (formatDescGL t)) (ucast (range_width rng))
                 (ucast (range_height rng)) (ucast (range_depth rng)) 0
                 (fd_format (formatDescGL t)) (fd_type (formatDescGL t)) nullptr
          else TexSubImage3D target (ucast (range_mipLevel rng)) (ucast (range_x rng))
                 (ucast (range_y rng)) (ucast (range_z rng)) (ucast (range_width rng))
                 (ucast (range_height rng)) (ucast (range_depth rng))
                 (fd_format (formatDescGL t)) (fd_type (formatDescGL t)) nullptr) c)"
  by (simp add: upload3D_def Let_def)

lemma supportsDimension_features:
  "deviceFeatures c' = deviceFeatures c \<Longrightarrow> supportsDimension t c' = supportsDimension t c"
  by (cases "getType t") (simp_all add: supportsDimension_def)

lemma upload2D_no_error:
  "isOk (validateRange b t rng) \<Longrightarrow> pendingErrors c = [] \<Longrightarrow>
     fst (upload2D b t c tg rng data) = ResultOk \<and> pendingErrors (snd (upload2D b t c tg rng data)) = []"
  by (simp add: upload2D_def Let_def getLastError_def issue_def)

lemma upload2DArray_no_error:
  "isOk (validateRange b t rng) \<Longrightarrow> pendingErrors c = [] \<Longrightarrow>
     fst (upload2DArray b t c tg rng data) = ResultOk \<and>
     pendingErrors (snd (upload2DArray b t c tg rng data)) = []"
  by (simp add: upload2DArray_def Let_def getLastError_def issue_def)

lemma upload3D_no_error:
  "isOk (validateRange b t rng) \<Longrightarrow> pendingErrors c = [] \<Longrightarrow>
     fst (upload3D b t c tg rng data) = ResultOk \<and> pendingErrors (snd (upload3D b t c tg rng data)) = []"
  by (simp add: upload3D_def Let_def getLastError_def issue_def)

lemma uploadFaces_no_error:
  "isOk (validateRange b t rng) \<Longrightarrow> pendingErrors c = [] \<Longrightarrow>
     fst (uploadFaces b t c faces rng data) = ResultOk"
proof (induction faces arbitrary: c)
  case Nil
  then show ?case by simp
next
  case (Cons faceTarget faces)
  obtain result c' where face: "upload2D b t c faceTarget rng data = (result, c')"
    by (cases "upload2D b t c faceTarget rng data")
  from upload2D_no_error [OF Cons.prems, of faceTarget data] face
  have ok: "result = ResultOk" and quiet: "pendingErrors c' = []"
    by simp_all
  from Cons.IH [OF Cons.prems(1) quiet] show ?case
    by (simp add: face ok isOk_def)
qed

lemma uploadTarget_no_error:
  assumes single: "range_numMipLevels rng = 1"
    and valid: "isOk (validateRange b t rng)"
    and dimension: "supportsDimension t c"
    and quiet: "pendingErrors c = []"
  shows "fst (uploadTarget b t c tg rng data bytesPerRow) = ResultOk"
proof -
  let ?c1 = "issue (PixelStorei GL_UNPACK_ALIGNMENT (getAlignment b t bytesPerRow (range_mipLevel rng))) c"
  have quiet1: "pendingErrors ?c1 = []" and features: "deviceFeatures ?c1 = deviceFeatures c"
    using quiet by (simp_all add: issue_def)
  show ?thesis
  proof (cases "getType t")
    case TwoD
    then show ?thesis
      using single upload2D_no_error [OF valid quiet1, of tg data]
      by (simp add: uploadTarget_def Let_def)
  next
    case TwoDArray
    then show ?thesis
      using single dimension features upload2DArray_no_error [OF valid quiet1, of tg data]
      by (simp add: uploadTarget_def supportsDimension_def Let_def)
  next
    case ThreeD
    then show ?thesis
      using single dimension features upload3D_no_error [OF valid quiet1, of tg data]
      by (simp add: uploadTarget_def supportsDimension_def Let_def)
  next
    case Cube
    then show ?thesis
      using single uploadFaces_no_error [OF valid quiet1, of kCubeFaceTargets data]
      by (simp add: uploadTarget_def Let_def)
  next
    case Invalid
    then show ?thesis
      using dimension by (simp add: supportsDimension_def)
  next
    case ExternalImage
    then show ?thesis
      using dimension by (simp add: supportsDimension_def)
  qed
qed

lemma upload_no_error:
  assumes "data \<noteq> nullptr" and "getTarget t \<noteq> 0"
    and single: "range_numMipLevels rng = 1"
    and valid: "isOk (validateRange b t rng)"
    and dimension: "supportsDimension t c"
    and quiet: "pendingErrors c = []"
  shows "fst (upload b t c rng data bytesPerRow) = ResultOk"
proof -
  let ?c1 = "bindTexture (getTarget t) (getId t) c"
  have "deviceFeatures ?c1 = deviceFeatures c"
    by (simp add: bindTexture_def issue_def)
  then have "pendingErrors ?c1 = []" and "supportsDimension t ?c1"
    using quiet dimension supportsDimension_features [of ?c1 c t]
    by (simp_all add: bindTexture_def issue_def)
  from uploadTarget_no_error [OF single valid this(2) this(1), of "getTarget t" data bytesPerRow] assms(1,2)
  show ?thesis
    by (auto simp add: upload_def Let_def split: prod.splits)
qed

text \<open>
  Claim C3, amended: for every range, the public upload with a null data pointer
  returns Ok and leaves the context as it was: it issues no call, so it neither
  allocates nor clears storage. The allocate-only call belongs to the per-dimension
  routines: with a null data pointer and a valid range each of them issues the plain
  (never the compressed) image-replace or sub-image-replace call, with the null
  pointer as its data, and reports the context's last error. In particular an upload
  with data followed by an upload of the same range with a null pointer, on a Mutable
  resource at full extent as on any other, has both calls return Ok when the range is
  valid and has one mip level, the texture has a target and a dimension the device
  supports, and the driver reports no error; the second call leaves the context of the
  first as it is.
\<close>

theorem upload_null_data:
  "upload b t c rng nullptr bytesPerRow = (ResultOk, c) \<and>
   (isOk (validateRange b t rng) \<longrightarrow>
      upload1D b t c target rng nullptr =
        getLastError (issue
          (if isValidForTexImage b t rng \<and> \<not> supportsTexStorage t c
           then TexImage1D target (ucast (range_mipLevel rng))
                  (fd_internalFormat (formatDescGL t)) (ucast (range_width rng)) 0
                  (fd_format (formatDescGL t)) (fd_type (formatDescGL t)) nullptr
           else TexSubImage1D target (ucast (range_mipLevel rng)) (ucast (range_x rng))
                  (ucast (range_width rng)) (fd_format (formatDescGL t))
                  (fd_type (formatDescGL t)) nullptr) c) \<and>
      upload1DArray b t c target rng nullptr =
        getLastError (issue
          (if isValidForTexImage b t rng \<and> \<not> supportsTexStorage t c
           then TexImage2D target (ucast (range_mipLevel rng))
                  (fd_internalFormat (formatDescGL t)) (ucast (range_width rng))
                  (ucast (range_numLayers rng)) 0 (fd_format (formatDescGL t))
                  (fd_type (formatDescGL t)) nullptr
           else TexSubImage2D target (ucast (range_mipLevel rng)) (ucast (range_x rng))
                  (ucast (range_layer rng)) (ucast (range_width rng))
                  (ucast (range_numLayers rng)) (fd_format (formatDescGL t))
                  (fd_type (formatDescGL t)) nullptr) c) \<and>
      upload2D b t c target rng nullptr =
        getLastError (issue
          (if isValidForTexImage b t rng \<and> \<not> supportsTexStorage t c
           then TexImage2D target (ucast (range_mipLevel rng))
                  (fd_internalFormat (formatDescGL t)) (ucast (range_width rng))
                  (ucast (range_height rng)) 0 (fd_format (formatDescGL t))
                  (fd_type (formatDescGL t)) nullptr
           else TexSubImage2D target (ucast (range_mipLevel rng)) (ucast (range_x rng))
                  (ucast (range_y rng)) (ucast (range_width rng)) (ucast (range_height rng))
                  (fd_format (formatDescGL t)) (fd_type (formatDescGL t)) nullptr) c) \<and>
      upload2DArray b t c target rng nullptr =
        getLastError (issue
          (if isValidForTexImage b t rng \<and> \<not> supportsTexStorage t c
           then TexImage3D target (ucast (range_mipLevel rng))
                  (fd_internalFormat (formatDescGL t)) (ucast (range_width rng))
                  (ucast (range_height rng)) (ucast (range_numLayers rng)) 0
                  (fd_format (formatDescGL t)) (fd_type (formatDescGL t)) nullptr
           else TexSubImage3D target (ucast (range_mipLevel rng)) (ucast (range_x rng))
                  (ucast (range_y rng)) (ucast (range_layer rng)) (ucast (range_width rng))
                  (ucast (range_height rng)) (ucast (range_numLayers rng))
                  (fd_format (formatDescGL t)) (fd_type (formatDescGL t)) nullptr) c) \<and>
      upload3D b t c target rng nullptr =
        getLastError (issue
          (if isValidForTexImage b t rng \<and> \<not> supportsTexStorage t c
           then TexImage3D target (ucast (range_mipLevel rng))
                  (fd_internalFormat (formatDescGL t)) (ucast (range_width rng))
                  (ucast (range_height rng)) (ucast (range_depth rng)) 0
                  (fd_format (formatDescGL t)) (fd_type (formatDescGL t)) nullptr
           else TexSubImage3D target (ucast (range_mipLevel rng)) (ucast (range_x rng))
                  (ucast (range_y rng)) (ucast (range_z rng)) (ucast (range_width rng))
                  (ucast (range_height rng)) (ucast (range_depth rng))
                  (fd_format (formatDescGL t)) (fd_type (formatDescGL t)) nullptr) c)) \<and>
   (data \<noteq> nullptr \<and> getTarget t \<noteq> 0 \<and> range_numMipLevels rng = 1 \<and>
    isOk (validateRange b t rng) \<and> supportsDimension t c \<and> pendingErrors c = [] \<longrightarrow>
      fst (upload b t c rng data bytesPerRow) = ResultOk \<and>
      upload b t (snd (upload b t c rng data bytesPerRow)) rng nullptr bytesPerRow =
        (ResultOk, snd (upload b t c rng data bytesPerRow)))"
proof -
  have without_data: "upload b t c rng nullptr bytesPerRow = (ResultOk, c)"
    by (simp add: upload_def)
  have routines: "isOk (validateRange b t rng) \<longrightarrow>
      upload1D b t c target rng nullptr =
        getLastError (issue
          (if isValidForTexImage b t rng \<and> \<not> supportsTexStorage t c
           then TexImage1D target (ucast (range_mipLevel rng))
                  (fd_internalFormat (formatDescGL t)) (ucast (range_width rng)) 0
                  (fd_format (formatDescGL t)) (fd_type (formatDescGL t)) nullptr
           else TexSubImage1D target (ucast (range_mipLevel rng)) (ucast (range_x rng))
                  (ucast (range_width rng)) (fd_format (formatDescGL t))
                  (fd_type (formatDescGL t)) nullptr) c) \<and>
      upload1DArray b t c target rng nullptr =
        getLastError (issue
          (if isValidForTexImage b t rng \<and> \<not> supportsTexStorage t c
           then TexImage2D target (ucast (range_mipLevel rng))
                  (fd_internalFormat (formatDescGL t)) (ucast (range_width rng))
                  (ucast (range_numLayers rng)) 0 (fd_format (formatDescGL t))
                  (fd_type (formatDescGL t)) nullptr
           else TexSubImage2D target (ucast (range_mipLevel rng)) (ucast (range_x rng))
                  (ucast (range_layer rng)) (ucast (range_width rng))
                  (ucast (range_numLayers rng)) (fd_format (formatDescGL t))
                  (fd_type (formatDescGL t)) nullptr) c) \<and>
      upload2D b t c target rng nullptr =
        getLastError (issue
          (if isValidForTexImage b t rng \<and> \<not> supportsTexStorage t c
           then TexImage2D target (ucast (range_mipLevel rng))
                  (fd_internalFormat (formatDescGL t)) (ucast (range_width rng))
                  (ucast (range_height rng)) 0 (fd_format (formatDescGL t))
                  (fd_type (formatDescGL t)) nullptr
           else TexSubImage2D target (ucast (range_mipLevel rng)) (ucast (range_x rng))
                  (ucast (range_y rng)) (ucast (range_width rng)) (ucast (range_height rng))
                  (fd_format (formatDescGL t)) (fd_type (formatDescGL t)) nullptr) c) \<and>
      upload2DArray b t c target rng nullptr =
        getLastError (issue
          (if isValidForTexImage b t rng \<and> \<not> supportsTexStorage t c
           then TexImage3D target (ucast (range_mipLevel rng))
                  (fd_internalFormat (formatDescGL t)) (ucast (range_width rng))
                  (ucast (range_height rng)) (ucast (range_numLayers rng)) 0
                  (fd_format (formatDescGL t)) (fd_type (formatDescGL t)) nullptr
           else TexSubImage3D target (ucast (range_mipLevel rng)) (ucast (range_x rng))
                  (ucast (range_y rng)) (ucast (range_layer rng)) (ucast (range_width rng))
                  (ucast (range_height rng)) (ucast (range_numLayers rng))
                  (fd_format (formatDescGL t)) (fd_type (formatDescGL t)) nullptr) c) \<and>
      upload3D b t c target rng nullptr =
        getLastError (issue
          (if isValidForTexImage b t rng \<and> \<not> supportsTexStorage t c
           then TexImage3D target (ucast (range_mipLevel rng))
                  (fd_internalFormat (formatDescGL t)) (ucast (range_width rng))
                  (ucast (range_height rng)) (ucast (range_depth rng)) 0
                  (fd_format (formatDescGL t)) (fd_type (formatDescGL t)) nullptr
           else TexSubImage3D target (ucast (range_mipLevel rng)) (ucast (range_x rng))
                  (ucast (range_y rng)) (ucast (range_z rng)) (ucast (range_width rng))
                  (ucast (range_height rng)) (ucast (range_depth rng))
                  (fd_format (formatDescGL t)) (fd_type (formatDescGL t)) nullptr) c)"
  proof
    assume valid: "isOk (validateRange b t rng)"
    from upload1D_null_data [OF valid] upload1DArray_null_data [OF valid] upload2D_null_data [OF valid]
      upload2DArray_null_data [OF valid] upload3D_null_data [OF valid]
    show "upload1D b t c target rng nullptr =
        getLastError (issue
          (if isValidForTexImage b t rng \<and> \<not> supportsTexStorage t c
           then TexImage1D target (ucast (range_mipLevel rng))
                  (fd_internalFormat (formatDescGL t)) (ucast (range_width rng)) 0
                  (fd_format (formatDescGL t)) (fd_type (formatDescGL t)) nullptr
           else TexSubImage1D target (ucast (range_mipLevel rng)) (ucast (range_x rng))
                  (ucast (range_width rng)) (fd_format (formatDescGL t))
                  (fd_type (formatDescGL t)) nullptr) c) \<and>
      upload1DArray b t c target rng nullptr =
        getLastError (issue
          (if isValidForTexImage b t rng \<and> \<not> supportsTexStorage t c
           then TexImage2D target (ucast (range_mipLevel rng))
                  (fd_internalFormat (formatDescGL t)) (ucast (range_width rng))
                  (ucast (range_numLayers rng)) 0 (fd_format (formatDescGL t))
                  (fd_type (formatDescGL t)) nullptr
           else TexSubImage2D target (ucast (range_mipLevel rng)) (ucast (range_x rng))
                  (ucast (range_layer rng)) (ucast (range_width rng))
                  (ucast (range_numLayers rng)) (fd_format (formatDescGL t))
                  (fd_type (formatDescGL t)) nullptr) c) \<and>
      upload2D b t c target rng nullptr =
        getLastError (issue
          (if isValidForTexImage b t rng \<and> \<not> supportsTexStorage t c
           then TexImage2D target (ucast (range_mipLevel rng))
                  (fd_internalFormat (formatDescGL t)) (ucast (range_width rng))
                  (ucast (range_height rng)) 0 (fd_format (formatDescGL t))
                  (fd_type (formatDescGL t)) nullptr
           else TexSubImage2D target (ucast (range_mipLevel rng)) (ucast (range_x rng))
                  (ucast (range_y rng)) (ucast (range_width rng)) (ucast (range_height rng))
                  (fd_format (formatDescGL t)) (fd_type (formatDescGL t)) nullptr) c) \<and>
      upload2DArray b t c target rng nullptr =
        getLastError (issue
          (if isValidForTexImage b t rng \<and> \<not> supportsTexStorage t c
           then TexImage3D target (ucast (range_mipLevel rng))
                  (fd_internalFormat (formatDescGL t)) (ucast (range_width rng))
                  (ucast (range_height rng)) (ucast (range_numLayers rng)) 0
                  (fd_format (formatDescGL t)) (fd_type (formatDescGL t)) nullptr
           else TexSubImage3D target (ucast (range_mipLevel rng)) (ucast (range_x rng))
                  (ucast (range_y rng)) (ucast (range_layer rng)) (ucast (range_width rng))
                  (ucast (range_height rng)) (ucast (range_numLayers rng))
                  (fd_format (formatDescGL t)) (fd_type (formatDescGL t)) nullptr) c) \<and>
      upload3D b t c target rng nullptr =
        getLastError (issue
          (if isValidForTexImage b t rng \<and> \<not> supportsTexStorage t c
           then TexImage3D target (ucast (range_mipLevel rng))
                  (fd_internalFormat (formatDescGL t)) (ucast (range_width rng))
                  (ucast (range_height rng)) (ucast (range_depth rng)) 0
                  (fd_format (formatDescGL t)) (fd_type (formatDescGL t)) nullptr
           else TexSubImage3D target (ucast (range_mipLevel rng)) (ucast (range_x rng))
                  (ucast (range_y rng)) (ucast (range_z rng)) (ucast (range_width rng))
                  (ucast (range_height rng)) (ucast (range_depth rng))
                  (fd_format (formatDescGL t)) (fd_type (formatDescGL t)) nullptr) c)"
      by simp
  qed
  have both: "(data \<noteq> nullptr \<and> getTarget t \<noteq> 0 \<and> range_numMipLevels rng = 1 \<and>
        isOk (validateRange b t rng) \<and> supportsDimension t c \<and> pendingErrors c = [] \<longrightarrow>
          fst (upload b t c rng data bytesPerRow) = ResultOk \<and>
          upload b t (snd (upload b t c rng data bytesPerRow)) rng nullptr bytesPerRow =
            (ResultOk, snd (upload b t c rng data bytesPerRow)))"
    using upload_no_error [of data t rng b c bytesPerRow]
    by (simp add: upload_def)
  from without_data routines both show ?thesis
    by (intro conjI)
qed

theorem upload_null_data_witness:
  "isOk (validateRange exampleOps exampleTexture (exampleFullRange 0 1)) \<and>
   upload exampleOps exampleTexture exampleContext (exampleFullRange 0 1) nullptr 0 = (ResultOk, exampleContext) \<and>
   upload2D exampleOps exampleTexture exampleContext GL_TEXTURE_2D (exampleFullRange 0 1) nullptr =
     (ResultOk, exampleContext\<lparr>callLog := [TexImage2D GL_TEXTURE_2D 0 0x8058 4 4 0 0x1908 0x1401 nullptr]\<rparr>) \<and>
   examplePixels \<noteq> nullptr \<and> getTarget exampleTexture \<noteq> 0 \<and>
   range_numMipLevels (exampleFullRange 0 1) = 1 \<and>
   isValidForTexImage exampleOps exampleTexture (exampleFullRange 0 1) \<and>
   \<not> supportsTexStorage exampleTexture exampleContext \<and>
   supportsDimension exampleTexture exampleContext \<and> pendingErrors exampleContext = [] \<and>
   fst (upload exampleOps exampleTexture exampleContext (exampleFullRange 0 1) examplePixels 0) = ResultOk \<and>
   upload exampleOps exampleTexture
       (snd (upload exampleOps exampleTexture exampleContext (exampleFullRange 0 1) examplePixels 0))
       (exampleFullRange 0 1) nullptr 0 =
     (ResultOk, snd (upload exampleOps exampleTexture exampleContext (exampleFullRange 0 1) examplePixels 0))"
proof -
  have full: "isValidForTexImage exampleOps exampleTexture (exampleFullRange 0 1)"
    by (simp add: exampleOps_def exampleFullRange_def)
  have mutable: "\<not> supportsTexStorage exampleTexture exampleContext"
    by (simp add: supportsTexStorage_def exampleTexture_def)
  have pixels: "examplePixels \<noteq> nullptr" "getTarget exampleTexture \<noteq> 0"
    by (simp_all add: examplePixels_def exampleTexture_def GL_TEXTURE_2D_def)
  have single: "range_numMipLevels (exampleFullRange 0 1) = 1"
    by (simp add: exampleFullRange_def)
  have dimension: "supportsDimension exampleTexture exampleContext"
    by (simp add: supportsDimension_def exampleTexture_def)
  have quiet: "pendingErrors exampleContext = []"
    by (simp add: exampleContext_def)
  note inst = upload_null_data [where b = exampleOps and t = exampleTexture and c = exampleContext
      and rng = "exampleFullRange 0 1" and bytesPerRow = 0 and target = GL_TEXTURE_2D
      and data = examplePixels]
  have without_data: "upload exampleOps exampleTexture exampleContext (exampleFullRange 0 1) nullptr 0 =
      (ResultOk, exampleContext)"
    using inst by simp
  have allocate: "upload2D exampleOps exampleTexture exampleContext GL_TEXTURE_2D (exampleFullRange 0 1) nullptr =
      (ResultOk, exampleContext\<lparr>callLog := [TexImage2D GL_TEXTURE_2D 0 0x8058 4 4 0 0x1908 0x1401 nullptr]\<rparr>)"
    using inst example_ranges_valid(1) [of exampleTexture] full mutable
    by (simp add: getLastError_def issue_def exampleContext_def exampleTexture_def exampleFormatDesc_def
        exampleFullRange_def)
  have both: "fst (upload exampleOps exampleTexture exampleContext (exampleFullRange 0 1) examplePixels 0) = ResultOk \<and>
      upload exampleOps exampleTexture
          (snd (upload exampleOps exampleTexture exampleContext (exampleFullRange 0 1) examplePixels 0))
          (exampleFullRange 0 1) nullptr 0 =
        (ResultOk, snd (upload exampleOps exampleTexture exampleContext (exampleFullRange 0 1) examplePixels 0))"
    using inst example_ranges_valid(1) [of exampleTexture] pixels single dimension quiet
    by simp
  from example_ranges_valid(1) [of exampleTexture] without_data allocate pixels single full mutable
    dimension quiet both
  show ?thesis
    by simp
qed

section \<open>The mip chain\<close>

















section \<open>The binding discipline\<close>

lemma bindTexture_unbinds:
  "boundTexture (bindTexture tg 0 c) tg = 0 \<and> last (callLog (bindTexture tg 0 c)) = BindTexture tg 0"
  by (simp add: bindTexture_def issue_def)

text \<open>
  Claim C8: \<open>upload\<close>, \<open>uploadCube\<close> and \<open>initialize\<close> either return before they
  issue any call, with the context as it was (a null data pointer, a texture without
  a target, a multi-level range or a non-cube target for \<open>uploadCube\<close>), or they bind
  the target, and then their last call is the unbind and the target is bound to 0 in
  the context they return, whatever the upload between the two returned.
\<close>

theorem binding_discipline:
  "(if data = nullptr \<or> getTarget t = 0
    then snd (upload b t c rng data bytesPerRow) = c
    else boundTexture (snd (upload b t c rng data bytesPerRow)) (getTarget t) = 0 \<and>
         last (callLog (snd (upload b t c rng data bytesPerRow))) = BindTexture (getTarget t) 0) \<and>
   (if data = nullptr \<or> range_numMipLevels rng > 1 \<or> getTarget t \<noteq> GL_TEXTURE_CUBE_MAP
    then snd (uploadCube b t c rng face data bytesPerRow) = c
    else boundTexture (snd (uploadCube b t c rng face data bytesPerRow)) (getTarget t) = 0 \<and>
         last (callLog (snd (uploadCube b t c rng face data bytesPerRow))) = BindTexture (getTarget t) 0) \<and>
   (if getTarget t = 0
    then snd (initialize b t c) = c
    else boundTexture (snd (initialize b t c)) (getTarget t) = 0 \<and>
         last (callLog (snd (initialize b t c))) = BindTexture (getTarget t) 0)"
proof (intro conjI)
  show "if data = nullptr \<or> getTarget t = 0
    then snd (upload b t c rng data bytesPerRow) = c
    else boundTexture (snd (upload b t c rng data bytesPerRow)) (getTarget t) = 0 \<and>
         last (callLog (snd (upload b t c rng data bytesPerRow))) = BindTexture (getTarget t) 0"
    by (simp add: upload_def Let_def bindTexture_unbinds split: prod.splits)
next
  show "if data = nullptr \<or> range_numMipLevels rng > 1 \<or> getTarget t \<noteq> GL_TEXTURE_CUBE_MAP
    then snd (uploadCube b t c rng face data bytesPerRow) = c
    else boundTexture (snd (uploadCube b t c rng face data bytesPerRow)) (getTarget t) = 0 \<and>
         last (callLog (snd (uploadCube b t c rng face data bytesPerRow))) = BindTexture (getTarget t) 0"
    by (auto simp add: uploadCube_def Let_def bindTexture_unbinds split: prod.splits)
next
  show "if getTarget t = 0
    then snd (initialize b t c) = c
    else boundTexture (snd (initialize b t c)) (getTarget t) = 0 \<and>
         last (callLog (snd (initialize b t c))) = BindTexture (getTarget t) 0"
    by (simp add: initialize_def Let_def bindTexture_unbinds split: prod.splits)
qed

theorem binding_discipline_witness:
  "examplePixels \<noteq> nullptr \<and> getTarget exampleTexture \<noteq> 0 \<and>
   boundTexture (snd (upload exampleOps exampleTexture exampleContext examplePartialRange examplePixels 0)) GL_TEXTURE_2D = 0 \<and>
   last (callLog (snd (upload exampleOps exampleTexture exampleContext examplePartialRange examplePixels 0))) = BindTexture GL_TEXTURE_2D 0 \<and>
   snd (uploadCube exampleOps exampleTexture exampleContext examplePartialRange PosX examplePixels 0) = exampleContext \<and>
   boundTexture (snd (initialize exampleOps exampleTexture failingContext)) GL_TEXTURE_2D = 0 \<and>
   last (callLog (snd (initialize exampleOps exampleTexture failingContext))) = BindTexture GL_TEXTURE_2D 0"
proof -
  have h1: "examplePixels \<noteq> nullptr"
    by (simp add: examplePixels_def)
  have h2: "getTarget exampleTexture = GL_TEXTURE_2D" "GL_TEXTURE_2D \<noteq> 0" "GL_TEXTURE_2D \<noteq> GL_TEXTURE_CUBE_MAP"
    by (simp_all add: exampleTexture_def GL_TEXTURE_2D_def GL_TEXTURE_CUBE_MAP_def)
  from binding_discipline [of examplePixels exampleTexture exampleOps exampleContext examplePartialRange 0 PosX]
    binding_discipline [of examplePixels exampleTexture exampleOps failingContext examplePartialRange 0 PosX]
    h1 h2
  show ?thesis by simp
qed

section \<open>The usage check of create\<close>

text \<open>
  Claim C10: once the base class's \<open>create\<close> has succeeded, \<open>create\<close> returns
  Unsupported with the message "invalid usage!" for a 2D descriptor with one mip level
  whose usage has neither Sampled nor Storage, in the state the base class left: no
  texture object has been generated. A descriptor with Sampled or Storage usage, of
  another type or with more than one mip level passes this check: the result is that of
  \<open>createTexture\<close>.
\<close>

theorem create_usage_gate:
  assumes super: "superCreate b desc hasStorageAlready t c = (result, t1, c1)" and ok: "isOk result"
  shows "(desc_type desc = TwoD \<and> desc_numMipLevels desc = 1 \<and>
          Sampled \<notin> desc_usage desc \<and> Storage \<notin> desc_usage desc \<longrightarrow>
            create b t c desc hasStorageAlready = (Result Unsupported ''invalid usage!'', t1, c1)) \<and>
         (Sampled \<in> desc_usage desc \<or> Storage \<in> desc_usage desc \<or>
          desc_type desc \<noteq> TwoD \<or> desc_numMipLevels desc > 1 \<longrightarrow>
            create b t c desc hasStorageAlready = createTexture b t1 c1 desc)"
proof (intro conjI impI)
  assume "desc_type desc = TwoD \<and> desc_numMipLevels desc = 1 \<and>
          Sampled \<notin> desc_usage desc \<and> Storage \<notin> desc_usage desc"
  then show "create b t c desc hasStorageAlready = (Result Unsupported ''invalid usage!'', t1, c1)"
    using super ok by (simp add: create_def)
next
  assume "Sampled \<in> desc_usage desc \<or> Storage \<in> desc_usage desc \<or>
          desc_type desc \<noteq> TwoD \<or> desc_numMipLevels desc > 1"
  then show "create b t c desc hasStorageAlready = createTexture b t1 c1 desc"
    using super ok by (auto simp add: create_def)
qed

theorem create_usage_gate_witness:
  "isOk (fst (superCreate exampleOps exampleDesc False exampleTexture exampleContext)) \<and>
   fst (create exampleOps exampleTexture exampleContext exampleDesc False) = Result Unsupported ''invalid usage!'' \<and>
   callLog (snd (snd (create exampleOps exampleTexture exampleContext exampleDesc False))) = [] \<and>
   create exampleOps exampleTexture exampleContext (exampleDesc\<lparr>desc_usage := {Sampled}\<rparr>) False =
     createTexture exampleOps (exampleTexture\<lparr>getNumMipLevels := 1\<rparr>) exampleContext (exampleDesc\<lparr>desc_usage := {Sampled}\<rparr>)"
proof -
  let ?t1 = "exampleTexture\<lparr>getNumMipLevels := 1\<rparr>"
  have super: "superCreate exampleOps d False exampleTexture exampleContext = (ResultOk, ?t1, exampleContext)"
    if "desc_type d = TwoD" "desc_numMipLevels d = 1" "desc_format d = OtherFormat 0" for d
    using that by (simp add: exampleOps_def exampleTexture_def)
  have ok: "isOk ResultOk"
    by (simp add: isOk_def)
  have d1: "desc_type exampleDesc = TwoD" "desc_numMipLevels exampleDesc = 1" "desc_format exampleDesc = OtherFormat 0"
    "Sampled \<notin> desc_usage exampleDesc" "Storage \<notin> desc_usage exampleDesc"
    by (simp_all add: exampleDesc_def)
  from create_usage_gate [OF super [of exampleDesc] ok] create_usage_gate [OF super [of "exampleDesc\<lparr>desc_usage := {Sampled}\<rparr>"] ok]
    d1 super [of exampleDesc] ok
  show ?thesis by (simp add: exampleContext_def)
qed

end
